theory Spec2Isabelle
  imports Complex_Main
begin

section \<open>Python values and exceptions\<close>

text \<open>
  The program under study is \<^verbatim>\<open>src/model.py\<close>. Its input is the result of
  \<^verbatim>\<open>json.loads\<close>: nested dictionaries with string keys, lists, strings, integers,
  floats, booleans and \<^verbatim>\<open>None\<close>. Every exception the code can meet is a value of
  \<open>py_error\<close>; a computation returns \<open>py_error + 'a\<close>, with \<open>Inl\<close> for a raised
  exception.
\<close>

datatype py_error =
  KeyError | ValueError | TypeError | AttributeError | IndexError
  | ZeroDivisionError | OverflowError

text \<open>
  A Python float is an IEEE 754 binary64 number. A finite nonzero float and positive zero
  are given by their exact rational value; negative zero, the infinities and NaN are
  separate constructors.
\<close>

datatype pyfloat = Finite rat | NegZero | PosInf | NegInf | NaN

datatype pyval =
  PNone
  | PBool bool
  | PInt int
  | PFloat pyfloat
  | PStr string
  | PList "pyval list"
  | PDict "(string \<times> pyval) list"

subsection \<open>Rounding to binary64\<close>

text \<open>The number of binary digits of a positive integer (\<^verbatim>\<open>int.bit_length\<close>).\<close>

function bit_length :: "int \<Rightarrow> int" where
  "bit_length n = (if n \<le> 0 then 0 else 1 + bit_length (n div 2))"
  by pat_completeness auto
termination
  by (relation "measure nat") auto

definition pow2 :: "int \<Rightarrow> rat" where
  "pow2 k = (if 0 \<le> k then 2 ^ nat k else 1 / 2 ^ nat (- k))"

text \<open>The exponent \<open>e\<close> with \<open>2^e \<le> q < 2^(e+1)\<close>, for a positive rational \<open>q\<close>.\<close>

definition ilog2 :: "rat \<Rightarrow> int" where
  "ilog2 q =
     (let (a, b) = quotient_of q;
          e0 = bit_length a - bit_length b
      in if pow2 e0 \<le> q then e0 else e0 - 1)"

definition round_half_even :: "rat \<Rightarrow> int" where
  "round_half_even x =
     (let f = \<lfloor>x\<rfloor>; r = x - of_int f
      in if r < 1 / 2 then f
         else if 1 / 2 < r then f + 1
         else if even f then f else f + 1)"

text \<open>
  Round-to-nearest, ties-to-even, with 53 significant bits and the least exponent
  \<open>-1022\<close> (so subnormals are multiples of \<open>2^-1074\<close>). A magnitude that rounds to
  \<open>2^1024\<close> or more becomes an infinity; one that rounds to zero keeps its sign.
\<close>

definition round_double :: "rat \<Rightarrow> pyfloat" where
  "round_double q =
     (if q = 0 then Finite 0
      else
        let e = max (ilog2 \<bar>q\<bar>) (- 1022);
            u = pow2 (e - 52);
            m = of_int (round_half_even (\<bar>q\<bar> / u)) * u
        in if pow2 1024 \<le> m then (if q < 0 then NegInf else PosInf)
           else if m = 0 then (if q < 0 then NegZero else Finite 0)
           else Finite (if q < 0 then - m else m))"

subsection \<open>Float arithmetic\<close>

fun is_neg :: "pyfloat \<Rightarrow> bool" where
  "is_neg (Finite q) = (q < 0)"
| "is_neg NegZero = True"
| "is_neg PosInf = False"
| "is_neg NegInf = True"
| "is_neg NaN = False"

fun is_finite :: "pyfloat \<Rightarrow> bool" where
  "is_finite (Finite q) = True"
| "is_finite NegZero = True"
| "is_finite x = False"

fun fval :: "pyfloat \<Rightarrow> rat" where
  "fval (Finite q) = q"
| "fval x = 0"

definition is_zero :: "pyfloat \<Rightarrow> bool" where
  "is_zero x = (x = Finite 0 \<or> x = NegZero)"

definition signed_zero :: "bool \<Rightarrow> pyfloat" where
  "signed_zero neg = (if neg then NegZero else Finite 0)"

definition signed_inf :: "bool \<Rightarrow> pyfloat" where
  "signed_inf neg = (if neg then NegInf else PosInf)"

text \<open>IEEE addition \<^verbatim>\<open>x + y\<close> of two floats.\<close>

definition fadd :: "pyfloat \<Rightarrow> pyfloat \<Rightarrow> pyfloat" where
  "fadd x y =
     (if x = NaN \<or> y = NaN then NaN
      else if \<not> is_finite x \<and> \<not> is_finite y then (if x = y then x else NaN)
      else if \<not> is_finite x then x
      else if \<not> is_finite y then y
      else if x = NegZero \<and> y = NegZero then NegZero
      else round_double (fval x + fval y))"

text \<open>IEEE division \<^verbatim>\<open>x / y\<close> of two floats, for a divisor that is not a zero.\<close>

definition fdiv :: "pyfloat \<Rightarrow> pyfloat \<Rightarrow> pyfloat" where
  "fdiv x y =
     (if x = NaN \<or> y = NaN then NaN
      else if \<not> is_finite x \<and> \<not> is_finite y then NaN
      else if \<not> is_finite x then signed_inf (is_neg x \<noteq> is_neg y)
      else if \<not> is_finite y \<or> is_zero x then signed_zero (is_neg x \<noteq> is_neg y)
      else round_double (fval x / fval y))"

text \<open>
  Conversion of a Python integer to a float (\<^verbatim>\<open>PyLong_AsDouble\<close>): correctly rounded,
  and \<^verbatim>\<open>OverflowError\<close> when the rounded magnitude is out of range.
\<close>

definition int_to_float :: "int \<Rightarrow> py_error + pyfloat" where
  "int_to_float n =
     (let f = round_double (of_int n)
      in if is_finite f then Inr f else Inl OverflowError)"

text \<open>
  True division \<^verbatim>\<open>a / b\<close> of two Python integers: the correctly rounded quotient, a
  \<^verbatim>\<open>ZeroDivisionError\<close> for a zero divisor, an \<^verbatim>\<open>OverflowError\<close> when the
  quotient is too large for a float. A zero result is negative exactly when the operands'
  signs differ, where the sign of \<open>0\<close> counts as positive.
\<close>

definition int_truediv :: "int \<Rightarrow> int \<Rightarrow> py_error + pyfloat" where
  "int_truediv a b =
     (if b = 0 then Inl ZeroDivisionError
      else if a = 0 then Inr (signed_zero (b < 0))
      else
        let f = round_double (of_int a / of_int b)
        in if is_finite f then Inr f else Inl OverflowError)"

subsection \<open>Float literals\<close>

text \<open>
  \<^verbatim>\<open>float(s)\<close> for a string: surrounding whitespace is stripped (the ASCII characters
  9 to 13 and 32, and the spaces beyond ASCII, here 133 and 160; the separators 28 to 31
  are not stripped), an underscore may stand between two digits, and what remains is an optional sign followed by
  \<^verbatim>\<open>inf\<close>, \<^verbatim>\<open>infinity\<close> or \<^verbatim>\<open>nan\<close> in any letter case, or by a decimal
  number with an optional exponent. A character of a string is its code point, here below
  256. Any other string is rejected (\<^verbatim>\<open>ValueError\<close>).
\<close>

definition is_space :: "char \<Rightarrow> bool" where
  "is_space c =
     (let n = (of_char c :: nat)
      in (9 \<le> n \<and> n \<le> 13) \<or> n = 32 \<or> n = 133 \<or> n = 160)"

definition is_digit :: "char \<Rightarrow> bool" where
  "is_digit c = (let n = (of_char c :: nat) in 48 \<le> n \<and> n \<le> 57)"

definition to_lower :: "char \<Rightarrow> char" where
  "to_lower c =
     (let n = (of_char c :: nat) in if 65 \<le> n \<and> n \<le> 90 then char_of (n + 32) else c)"

definition strip :: "string \<Rightarrow> string" where
  "strip s = rev (dropWhile is_space (rev (dropWhile is_space s)))"

fun remove_underscores :: "char option \<Rightarrow> string \<Rightarrow> string option" where
  "remove_underscores prev [] = (if prev = Some (CHR ''_'') then None else Some [])"
| "remove_underscores prev (c # cs) =
     (if c = CHR ''_'' then
        (case prev of
           None \<Rightarrow> None
         | Some p \<Rightarrow> if is_digit p then remove_underscores (Some c) cs else None)
      else if prev = Some (CHR ''_'') \<and> \<not> is_digit c then None
      else map_option ((#) c) (remove_underscores (Some c) cs))"

definition digits_val :: "string \<Rightarrow> nat" where
  "digits_val ds = foldl (\<lambda>a c. 10 * a + (of_char c - 48)) 0 ds"

definition pow10 :: "int \<Rightarrow> rat" where
  "pow10 k = (if 0 \<le> k then 10 ^ nat k else 1 / 10 ^ nat (- k))"

definition split_sign :: "string \<Rightarrow> bool \<times> string" where
  "split_sign s =
     (case s of
        [] \<Rightarrow> (False, [])
      | c # cs \<Rightarrow>
          if c = CHR ''-'' then (True, cs)
          else if c = CHR ''+'' then (False, cs)
          else (False, s))"

definition parse_exponent :: "string \<Rightarrow> int option" where
  "parse_exponent s =
     (case s of
        [] \<Rightarrow> Some 0
      | c # cs \<Rightarrow>
          if c = CHR ''e'' \<or> c = CHR ''E'' then
            (let (neg, ds) = split_sign cs
             in if ds \<noteq> [] \<and> list_all is_digit ds
                then Some (if neg then - int (digits_val ds) else int (digits_val ds))
                else None)
          else None)"

definition parse_decimal :: "string \<Rightarrow> rat option" where
  "parse_decimal s =
     (let ip = takeWhile is_digit s;
          r1 = dropWhile is_digit s;
          (fp, r2) =
            (case r1 of
               [] \<Rightarrow> ([], [])
             | c # cs \<Rightarrow>
                 if c = CHR ''.'' then (takeWhile is_digit cs, dropWhile is_digit cs)
                 else ([], r1))
      in if ip = [] \<and> fp = [] then None
         else
           (case parse_exponent r2 of
              None \<Rightarrow> None
            | Some ex \<Rightarrow> Some (of_nat (digits_val (ip @ fp)) * pow10 (ex - int (length fp)))))"

definition float_of_str :: "string \<Rightarrow> pyfloat option" where
  "float_of_str s =
     (case remove_underscores None (strip s) of
        None \<Rightarrow> None
      | Some t \<Rightarrow>
          (let (neg, body) = split_sign t; lb = map to_lower body
           in if lb = ''inf'' \<or> lb = ''infinity'' then Some (signed_inf neg)
              else if lb = ''nan'' then Some NaN
              else
                (case parse_decimal body of
                   None \<Rightarrow> None
                 | Some q \<Rightarrow>
                     Some (if q = 0 then signed_zero neg
                           else round_double (if neg then - q else q)))))"

section \<open>Python operations used by the program\<close>

definition and_then :: "py_error + 'a \<Rightarrow> ('a \<Rightarrow> py_error + 'b) \<Rightarrow> py_error + 'b" where
  "and_then r f = (case r of Inl e \<Rightarrow> Inl e | Inr v \<Rightarrow> f v)"

text \<open>Indexing a sequence with an integer: a negative index counts from the end.\<close>

definition seq_index :: "'a list \<Rightarrow> int \<Rightarrow> py_error + 'a" where
  "seq_index xs i =
     (let j = (if i < 0 then i + int (length xs) else i)
      in if j < 0 \<or> int (length xs) \<le> j then Inl IndexError else Inr (xs ! nat j))"

text \<open>
  \<^verbatim>\<open>obj[i]\<close> for an integer \<open>i\<close>. A dictionary read from JSON has string keys only,
  so an integer key is never present and the lookup raises \<^verbatim>\<open>KeyError\<close>. The other
  values are not subscriptable.
\<close>

fun py_getitem :: "pyval \<Rightarrow> int \<Rightarrow> py_error + pyval" where
  "py_getitem (PList xs) i = seq_index xs i"
| "py_getitem (PStr s) i = and_then (seq_index s i) (\<lambda>c. Inr (PStr [c]))"
| "py_getitem (PDict kvs) i = Inl KeyError"
| "py_getitem v i = Inl TypeError"

text \<open>\<^verbatim>\<open>obj.get(key, default)\<close>: only a dictionary has the method.\<close>

fun py_get :: "pyval \<Rightarrow> string \<Rightarrow> pyval \<Rightarrow> py_error + pyval" where
  "py_get (PDict kvs) k dflt = Inr (case map_of kvs k of None \<Rightarrow> dflt | Some v \<Rightarrow> v)"
| "py_get v k dflt = Inl AttributeError"

text \<open>The numeric reading of a value: a \<^verbatim>\<open>bool\<close> is an \<^verbatim>\<open>int\<close>.\<close>

datatype num = NInt int | NFloat pyfloat

fun as_num :: "pyval \<Rightarrow> num option" where
  "as_num (PBool b) = Some (NInt (if b then 1 else 0))"
| "as_num (PInt n) = Some (NInt n)"
| "as_num (PFloat f) = Some (NFloat f)"
| "as_num v = None"

fun num_to_float :: "num \<Rightarrow> py_error + pyfloat" where
  "num_to_float (NInt n) = int_to_float n"
| "num_to_float (NFloat f) = Inr f"

fun of_num :: "num \<Rightarrow> pyval" where
  "of_num (NInt n) = PInt n"
| "of_num (NFloat f) = PFloat f"

text \<open>
  Addition of two numbers: exact on integers; with a float operand the integer operand
  is converted first, then the floats are added.
\<close>

fun num_add :: "num \<Rightarrow> num \<Rightarrow> py_error + num" where
  "num_add (NInt x) (NInt y) = Inr (NInt (x + y))"
| "num_add x y =
     and_then (num_to_float x) (\<lambda>fx.
     and_then (num_to_float y) (\<lambda>fy. Inr (NFloat (fadd fx fy))))"

text \<open>
  True division of two numbers. Both operands are converted before a float divisor is
  compared with zero.
\<close>

fun num_truediv :: "num \<Rightarrow> num \<Rightarrow> py_error + pyfloat" where
  "num_truediv (NInt x) (NInt y) = int_truediv x y"
| "num_truediv x y =
     and_then (num_to_float x) (\<lambda>fx.
     and_then (num_to_float y) (\<lambda>fy.
       if is_zero fy then Inl ZeroDivisionError else Inr (fdiv fx fy)))"

text \<open>
  \<^verbatim>\<open>a + b\<close>: numbers are added, two strings or two lists are concatenated, any other
  pair of JSON values raises \<^verbatim>\<open>TypeError\<close>.
\<close>

definition py_add :: "pyval \<Rightarrow> pyval \<Rightarrow> py_error + pyval" where
  "py_add a b =
     (case (as_num a, as_num b) of
        (Some x, Some y) \<Rightarrow> and_then (num_add x y) (\<lambda>n. Inr (of_num n))
      | _ \<Rightarrow>
          (case (a, b) of
             (PStr s, PStr t) \<Rightarrow> Inr (PStr (s @ t))
           | (PList xs, PList ys) \<Rightarrow> Inr (PList (xs @ ys))
           | _ \<Rightarrow> Inl TypeError))"

text \<open>\<^verbatim>\<open>a / b\<close>: defined on numbers only.\<close>

definition py_truediv :: "pyval \<Rightarrow> pyval \<Rightarrow> py_error + pyval" where
  "py_truediv a b =
     (case (as_num a, as_num b) of
        (Some x, Some y) \<Rightarrow> and_then (num_truediv x y) (\<lambda>f. Inr (PFloat f))
      | _ \<Rightarrow> Inl TypeError)"

text \<open>
  \<^verbatim>\<open>float(v)\<close>: a number is converted, a string is parsed, any other JSON value
  raises \<^verbatim>\<open>TypeError\<close>.
\<close>

definition py_float :: "pyval \<Rightarrow> py_error + pyval" where
  "py_float v =
     (case v of
        PStr s \<Rightarrow> (case float_of_str s of None \<Rightarrow> Inl ValueError | Some f \<Rightarrow> Inr (PFloat f))
      | _ \<Rightarrow>
          (case as_num v of
             None \<Rightarrow> Inl TypeError
           | Some n \<Rightarrow> and_then (num_to_float n) (\<lambda>f. Inr (PFloat f))))"

section \<open>The accessors of \<^verbatim>\<open>model.py\<close>\<close>

text \<open>\<^verbatim>\<open>data.get("financials")[financial_index]\<close>\<close>

definition financial_entry :: "pyval \<Rightarrow> int \<Rightarrow> py_error + pyval" where
  "financial_entry data financial_index =
     and_then (py_get data ''financials'' PNone) (\<lambda>fs. py_getitem fs financial_index)"

text \<open>\<^verbatim>\<open>financial_entry.get("pnl", {}).get("lineItems", {}).get(name, 0)\<close>\<close>

definition line_item :: "pyval \<Rightarrow> string \<Rightarrow> py_error + pyval" where
  "line_item entry name =
     and_then (py_get entry ''pnl'' (PDict [])) (\<lambda>pnl.
     and_then (py_get pnl ''lineItems'' (PDict [])) (\<lambda>items.
       py_get items name (PInt 0)))"

text \<open>
  The handler \<^verbatim>\<open>except (KeyError, ValueError): return 0.0\<close>. None of the other
  exceptions of \<open>py_error\<close> is a subclass of the two it names, so they propagate.
\<close>

definition except_key_value :: "py_error + pyval \<Rightarrow> py_error + pyval" where
  "except_key_value r =
     (case r of
        Inl KeyError \<Rightarrow> Inr (PFloat (Finite 0))
      | Inl ValueError \<Rightarrow> Inr (PFloat (Finite 0))
      | _ \<Rightarrow> r)"

text \<open>The \<^verbatim>\<open>try\<close> block of \<^verbatim>\<open>total_revenue\<close>, and the function.\<close>

definition total_revenue_try :: "pyval \<Rightarrow> int \<Rightarrow> py_error + pyval" where
  "total_revenue_try data financial_index =
     and_then (financial_entry data financial_index) (\<lambda>entry.
     and_then (line_item entry ''netRevenue'') (\<lambda>net_revenue.
       py_float net_revenue))"

definition total_revenue :: "pyval \<Rightarrow> int \<Rightarrow> py_error + pyval" where
  "total_revenue data financial_index =
     except_key_value (total_revenue_try data financial_index)"

text \<open>The \<^verbatim>\<open>try\<close> block of \<^verbatim>\<open>iscr\<close>, and the function.\<close>

definition iscr_try :: "pyval \<Rightarrow> int \<Rightarrow> py_error + pyval" where
  "iscr_try data financial_index =
     and_then (financial_entry data financial_index) (\<lambda>entry.
     and_then (line_item entry ''profitBeforeInterestAndTax'') (\<lambda>profit_before_interest_and_tax.
     and_then (line_item entry ''depreciation'') (\<lambda>depreciation.
     and_then (line_item entry ''interestExpenses'') (\<lambda>interest_expenses.
     and_then (py_add profit_before_interest_and_tax depreciation) (\<lambda>s1.
     and_then (py_add s1 (PInt 1)) (\<lambda>numerator.
     and_then (py_add interest_expenses (PInt 1)) (\<lambda>denominator.
       py_truediv numerator denominator)))))))"

definition iscr :: "pyval \<Rightarrow> int \<Rightarrow> py_error + pyval" where
  "iscr data financial_index = except_key_value (iscr_try data financial_index)"

section \<open>The orchestrator\<close>

text \<open>
  \<^verbatim>\<open>probe_model_5l_profit\<close> calls four functions imported from the module
  \<^verbatim>\<open>rule\<close>, whose source is not part of the program text studied here. They are
  parameters of the model. Each may read and change a world \<open>'w\<close> of its own (module
  globals, caches), may raise, and returns any Python value. Every call that the body of
  \<^verbatim>\<open>probe_model_5l_profit\<close> makes is appended to a log, with its arguments.
\<close>

record 'w rule_module =
  latest_financial_index :: "pyval \<Rightarrow> 'w \<Rightarrow> (py_error + pyval) \<times> 'w"
  total_revenue_5cr_flag :: "pyval \<Rightarrow> pyval \<Rightarrow> 'w \<Rightarrow> (py_error + pyval) \<times> 'w"
  borrowing_to_revenue_flag :: "pyval \<Rightarrow> pyval \<Rightarrow> 'w \<Rightarrow> (py_error + pyval) \<times> 'w"
  iscr_flag :: "pyval \<Rightarrow> pyval \<Rightarrow> 'w \<Rightarrow> (py_error + pyval) \<times> 'w"

datatype call =
  Call_latest_financial_index pyval
  | Call_total_revenue_5cr_flag pyval pyval
  | Call_borrowing_to_revenue_flag pyval pyval
  | Call_iscr_flag pyval pyval

definition invoke ::
  "call \<Rightarrow> ('w \<Rightarrow> (py_error + pyval) \<times> 'w) \<Rightarrow> 'w \<times> call list
     \<Rightarrow> (py_error + pyval) \<times> 'w \<times> call list" where
  "invoke c f st = (case st of (w, calls) \<Rightarrow> (case f w of (r, w') \<Rightarrow> (r, w', calls @ [c])))"

definition probe_model_5l_profit ::
  "'w rule_module \<Rightarrow> pyval \<Rightarrow> 'w \<times> call list \<Rightarrow> (py_error + pyval) \<times> 'w \<times> call list" where
  "probe_model_5l_profit rule data st0 =
     (case invoke (Call_latest_financial_index data) (latest_financial_index rule data) st0 of
        (Inl e, st1) \<Rightarrow> (Inl e, st1)
      | (Inr lastest_financial_index_value, st1) \<Rightarrow>
     (case invoke (Call_total_revenue_5cr_flag data lastest_financial_index_value)
             (total_revenue_5cr_flag rule data lastest_financial_index_value) st1 of
        (Inl e, st2) \<Rightarrow> (Inl e, st2)
      | (Inr total_revenue_5cr_flag_value, st2) \<Rightarrow>
     (case invoke (Call_borrowing_to_revenue_flag data lastest_financial_index_value)
             (borrowing_to_revenue_flag rule data lastest_financial_index_value) st2 of
        (Inl e, st3) \<Rightarrow> (Inl e, st3)
      | (Inr borrowing_to_revenue_flag_value, st3) \<Rightarrow>
     (case invoke (Call_iscr_flag data lastest_financial_index_value)
             (iscr_flag rule data lastest_financial_index_value) st3 of
        (Inl e, st4) \<Rightarrow> (Inl e, st4)
      | (Inr iscr_flag_value, st4) \<Rightarrow>
          (Inr (PDict [(''flags'', PDict
                  [(''TOTAL_REVENUE_5CR_FLAG'', total_revenue_5cr_flag_value),
                   (''BORROWING_TO_REVENUE_FLAG'', borrowing_to_revenue_flag_value),
                   (''ISCR_FLAG'', iscr_flag_value)])]), st4)))))"

section \<open>Notions used to state the properties\<close>

text \<open>
  The line items of a financial entry, when the entry is an object whose \<^verbatim>\<open>pnl\<close>
  and \<^verbatim>\<open>lineItems\<close> members are objects or absent; an absent member stands for the
  empty object.
\<close>

definition line_items_of :: "pyval \<Rightarrow> (string \<times> pyval) list option" where
  "line_items_of entry =
     (case entry of
        PDict e \<Rightarrow>
          (case map_of e ''pnl'' of
             None \<Rightarrow> Some []
           | Some (PDict p) \<Rightarrow>
               (case map_of p ''lineItems'' of
                  None \<Rightarrow> Some []
                | Some (PDict items) \<Rightarrow> Some items
                | Some _ \<Rightarrow> None)
           | Some _ \<Rightarrow> None)
      | _ \<Rightarrow> None)"

text \<open>A line item by name, \<open>0\<close> when it is absent.\<close>

definition item_or_zero :: "(string \<times> pyval) list \<Rightarrow> string \<Rightarrow> pyval" where
  "item_or_zero items name = (case map_of items name of None \<Rightarrow> PInt 0 | Some v \<Rightarrow> v)"

text \<open>
  The formula \<open>(p + d + 1) / (i + 1)\<close> on numbers, in Python's arithmetic: exact on
  integers up to the final division, which is correctly rounded; float arithmetic as soon
  as a float takes part.
\<close>

definition iscr_formula :: "num \<Rightarrow> num \<Rightarrow> num \<Rightarrow> py_error + pyfloat" where
  "iscr_formula p d i =
     and_then (num_add p d) (\<lambda>s.
     and_then (num_add s (NInt 1)) (\<lambda>n.
     and_then (num_add i (NInt 1)) (\<lambda>m. num_truediv n m)))"

text \<open>
  The record holds an object under \<^verbatim>\<open>financials\<close>, so that an integer index is
  a key the object does not have.
\<close>

definition financials_is_object :: "pyval \<Rightarrow> bool" where
  "financials_is_object data =
     (case data of
        PDict d \<Rightarrow> (case map_of d ''financials'' of Some (PDict kvs) \<Rightarrow> True | _ \<Rightarrow> False)
      | _ \<Rightarrow> False)"

text \<open>A JSON number with the integer value \<open>k\<close>: the integer or the float.\<close>

definition is_number :: "int \<Rightarrow> pyval \<Rightarrow> bool" where
  "is_number k v = (v = PInt k \<or> v = PFloat (Finite (of_int k)))"

text \<open>
  Modelled from the spec: the source of the module \<^verbatim>\<open>rule\<close> is missing; the spec
  describes its functions as pure and free of side effects, so what each returns does not
  depend on the world it is called in.
\<close>

definition stateless :: "'w rule_module \<Rightarrow> bool" where
  "stateless rule =
     ((\<forall>d w w'. fst (latest_financial_index rule d w) = fst (latest_financial_index rule d w'))
      \<and> (\<forall>d i w w'. fst (total_revenue_5cr_flag rule d i w) = fst (total_revenue_5cr_flag rule d i w'))
      \<and> (\<forall>d i w w'. fst (borrowing_to_revenue_flag rule d i w) = fst (borrowing_to_revenue_flag rule d i w'))
      \<and> (\<forall>d i w w'. fst (iscr_flag rule d i w) = fst (iscr_flag rule d i w')))"

text \<open>The index a logged call of a flag function received.\<close>

fun index_passed :: "call \<Rightarrow> pyval option" where
  "index_passed (Call_latest_financial_index d) = None"
| "index_passed (Call_total_revenue_5cr_flag d i) = Some i"
| "index_passed (Call_borrowing_to_revenue_flag d i) = Some i"
| "index_passed (Call_iscr_flag d i) = Some i"

fun selects_latest :: "call \<Rightarrow> bool" where
  "selects_latest (Call_latest_financial_index d) = True"
| "selects_latest c = False"

section \<open>Example inputs\<close>

definition record_not_a_number :: pyval where
  "record_not_a_number =
     PDict [(''financials'',
       PList [PDict [(''pnl'', PDict [(''lineItems'',
         PDict [(''netRevenue'', PStr ''not-a-number'')])])]])]"

definition record_zero_denominator :: pyval where
  "record_zero_denominator =
     PDict [(''financials'',
       PList [PDict [(''pnl'', PDict [(''lineItems'',
         PDict [(''profitBeforeInterestAndTax'', PInt 5),
                (''depreciation'', PInt 2),
                (''interestExpenses'', PInt (- 1))])])]])]"

definition record_interest_only :: pyval where
  "record_interest_only =
     PDict [(''financials'',
       PList [PDict [(''pnl'', PDict [(''lineItems'',
         PDict [(''interestExpenses'', PFloat (Finite (- 1)))])])]])]"

definition record_all_zero :: pyval where
  "record_all_zero =
     PDict [(''financials'',
       PList [PDict [(''pnl'', PDict [(''lineItems'',
         PDict [(''profitBeforeInterestAndTax'', PInt 0),
                (''depreciation'', PFloat (Finite 0)),
                (''interestExpenses'', PInt 0)])])]])]"

definition record_nine :: pyval where
  "record_nine =
     PDict [(''financials'',
       PList [PDict [(''pnl'', PDict [(''lineItems'',
         PDict [(''profitBeforeInterestAndTax'', PInt 9),
                (''depreciation'', PInt 0),
                (''interestExpenses'', PFloat (Finite 9))])])]])]"

definition record_revenue :: pyval where
  "record_revenue =
     PDict [(''financials'',
       PList [PDict [(''pnl'', PDict [(''lineItems'',
         PDict [(''netRevenue'', PInt 60000000)])])]])]"

definition record_text_revenue :: pyval where
  "record_text_revenue =
     PDict [(''financials'',
       PList [PDict [(''pnl'', PDict [(''lineItems'',
         PDict [(''netRevenue'', PStr ''12.5'')])])]])]"

definition record_separator_revenue :: pyval where
  "record_separator_revenue =
     PDict [(''financials'',
       PList [PDict [(''pnl'', PDict [(''lineItems'',
         PDict [(''netRevenue'', PStr [CHR 0x1C, CHR ''1''])])])]])]"

definition record_empty_entry :: pyval where
  "record_empty_entry = PDict [(''financials'', PList [PDict []])]"

definition record_huge_revenue :: pyval where
  "record_huge_revenue =
     PDict [(''financials'',
       PList [PDict [(''pnl'', PDict [(''lineItems'',
         PDict [(''netRevenue'', PInt (2 ^ 1024))])])]])]"

definition record_null_revenue :: pyval where
  "record_null_revenue =
     PDict [(''financials'',
       PList [PDict [(''pnl'', PDict [(''lineItems'',
         PDict [(''netRevenue'', PNone)])])]])]"

definition record_text_interest :: pyval where
  "record_text_interest =
     PDict [(''financials'',
       PList [PDict [(''pnl'', PDict [(''lineItems'',
         PDict [(''interestExpenses'', PStr ''not-a-number'')])])]])]"

definition record_financials_object :: pyval where
  "record_financials_object = PDict [(''financials'', PDict [(''2023'', PDict [])])]"

text \<open>
  A rule module to instantiate the orchestrator with: it selects index \<open>0\<close>, answers
  with fixed flags, and counts the calls it receives in its world.
\<close>

definition example_rule :: "nat rule_module" where
  "example_rule =
     \<lparr> latest_financial_index = (\<lambda>d w. (Inr (PInt 0), Suc w)),
       total_revenue_5cr_flag = (\<lambda>d i w. (Inr (PBool True), Suc w)),
       borrowing_to_revenue_flag = (\<lambda>d i w. (Inr (PBool False), Suc w)),
       iscr_flag = (\<lambda>d i w. (Inr (PBool False), Suc w)) \<rparr>"

section \<open>Basic facts\<close>

lemma line_item_of:
  "line_items_of entry = Some items \<Longrightarrow> line_item entry name = Inr (item_or_zero items name)"
  by (auto simp: line_items_of_def line_item_def item_or_zero_def and_then_def
      split: pyval.splits option.splits)

lemma financial_entry_list:
  "map_of d ''financials'' = Some (PList xs) \<Longrightarrow> financial_entry (PDict d) i = seq_index xs i"
  by (simp add: financial_entry_def and_then_def)

lemma seq_index_out_of_range:
  "i < - int (length xs) \<or> int (length xs) \<le> i \<Longrightarrow> seq_index xs i = Inl IndexError"
  by (auto simp: seq_index_def Let_def)

lemma float_of_str_not_a_number: "float_of_str ''not-a-number'' = None"
  by (simp add: float_of_str_def strip_def is_space_def is_digit_def split_sign_def
      to_lower_def parse_decimal_def)

lemma as_num_of_num: "as_num (of_num n) = Some n"
  by (cases n) simp_all

lemma py_add_num:
  "as_num a = Some x \<Longrightarrow> as_num b = Some y \<Longrightarrow>
   py_add a b = and_then (num_add x y) (\<lambda>n. Inr (of_num n))"
  by (simp add: py_add_def)

lemma py_truediv_num:
  "as_num a = Some x \<Longrightarrow> as_num b = Some y \<Longrightarrow>
   py_truediv a b = and_then (num_truediv x y) (\<lambda>f. Inr (PFloat f))"
  by (simp add: py_truediv_def)

lemma iscr_try_formula:
  assumes "financial_entry data idx = Inr entry"
    and "line_items_of entry = Some items"
    and "as_num (item_or_zero items ''profitBeforeInterestAndTax'') = Some p"
    and "as_num (item_or_zero items ''depreciation'') = Some d"
    and "as_num (item_or_zero items ''interestExpenses'') = Some i"
  shows "iscr_try data idx = and_then (iscr_formula p d i) (\<lambda>f. Inr (PFloat f))"
proof -
  have one: "as_num (PInt 1) = Some (NInt 1)" by simp
  show ?thesis
  proof (cases "num_add p d")
    case (Inl e)
    then show ?thesis
      using assms
      by (simp add: iscr_try_def iscr_formula_def line_item_of py_add_num and_then_def)
  next
    case s: (Inr s)
    show ?thesis
    proof (cases "num_add s (NInt 1)")
      case (Inl e)
      then show ?thesis
        using assms s
        by (simp add: iscr_try_def iscr_formula_def line_item_of py_add_num and_then_def
            as_num_of_num)
    next
      case n: (Inr n)
      show ?thesis
      proof (cases "num_add i (NInt 1)")
        case (Inl e)
        then show ?thesis
          using assms s n
          by (simp add: iscr_try_def iscr_formula_def line_item_of py_add_num and_then_def
              as_num_of_num)
      next
        case (Inr m)
        then show ?thesis
          using assms s n
          by (simp add: iscr_try_def iscr_formula_def line_item_of py_add_num py_truediv_num
              and_then_def as_num_of_num)
      qed
    qed
  qed
qed

lemma int_to_float_error: "int_to_float n = Inl e \<Longrightarrow> e = OverflowError"
  by (auto simp: int_to_float_def Let_def split: if_splits)

lemma num_to_float_error: "num_to_float n = Inl e \<Longrightarrow> e = OverflowError"
  by (cases n) (auto dest: int_to_float_error)

lemma num_add_error: "num_add x y = Inl e \<Longrightarrow> e = OverflowError"
  by (cases x; cases y) (auto simp: and_then_def split: sum.splits dest: int_to_float_error)

lemma int_truediv_error:
  "int_truediv a b = Inl e \<Longrightarrow> e = ZeroDivisionError \<or> e = OverflowError"
  by (auto simp: int_truediv_def Let_def split: if_splits)

lemma num_truediv_error:
  "num_truediv x y = Inl e \<Longrightarrow> e = ZeroDivisionError \<or> e = OverflowError"
  by (cases x; cases y)
     (auto simp: and_then_def split: sum.splits if_splits
        dest: int_to_float_error int_truediv_error)

lemma iscr_formula_error:
  "iscr_formula p d i = Inl e \<Longrightarrow> e = ZeroDivisionError \<or> e = OverflowError"
  by (auto simp: iscr_formula_def and_then_def split: sum.splits
      dest: num_add_error num_truediv_error)

lemma iscr_formula_int:
  "iscr_formula (NInt p) (NInt d) (NInt i) = int_truediv (p + d + 1) (i + 1)"
  by (simp add: iscr_formula_def and_then_def)

lemma round_double_1: "round_double 1 = Finite 1"
  by (simp add: round_double_def ilog2_def pow2_def round_half_even_def)

lemma int_to_float_1: "int_to_float 1 = Inr (Finite 1)"
  by (simp add: int_to_float_def round_double_1)

lemma int_to_float_0: "int_to_float 0 = Inr (Finite 0)"
  by (simp add: int_to_float_def round_double_def)

lemma int_to_float_cases: "int_to_float x = Inl OverflowError \<or> (\<exists>f. int_to_float x = Inr f)"
  by (simp add: int_to_float_def Let_def)


lemma bit_length_pow2: "bit_length (2 ^ n) = int n + 1"
  by (induction n) simp_all

lemma ilog2_pow2: "ilog2 (2 ^ n) = int n"
proof -
  have "quotient_of (2 ^ n) = (2 ^ n, 1)"
    using quotient_of_int [of "2 ^ n"] by (simp add: Rat.of_int_def)
  then show ?thesis
    using bit_length_pow2 [of n] bit_length_pow2 [of 0]
    by (simp add: ilog2_def pow2_def)
qed

lemma round_double_pow2_1024: "round_double (2 ^ 1024) = PosInf"
proof -
  have e: "ilog2 \<bar>2 ^ 1024\<bar> = 1024"
    using ilog2_pow2 [of 1024] by simp
  have "(2::rat) ^ 1024 / 2 ^ 972 = 2 ^ 52"
    by (simp add: power_diff [symmetric])
  then have r: "round_half_even (\<bar>2 ^ 1024\<bar> / pow2 (1024 - 52)) = 2 ^ 52"
    by (simp add: round_half_even_def pow2_def)
  have m: "(of_int (2 ^ 52) :: rat) * pow2 (1024 - 52) = 2 ^ 1024"
    by (simp add: pow2_def power_add [symmetric])
  show ?thesis
    unfolding round_double_def Let_def e
    using r m by (simp add: pow2_def)
qed

lemma int_to_float_overflow: "int_to_float (2 ^ 1024) = Inl OverflowError"
  using round_double_pow2_1024 by (simp add: int_to_float_def)

lemma round_double_0: "round_double 0 = Finite 0"
  by (simp add: round_double_def)

lemma round_double_9: "round_double 9 = Finite 9"
  by (simp add: round_double_def ilog2_def pow2_def round_half_even_def)

lemma round_double_10: "round_double 10 = Finite 10"
  by (simp add: round_double_def ilog2_def pow2_def round_half_even_def)

lemma int_to_float_9: "int_to_float 9 = Inr (Finite 9)"
  by (simp add: int_to_float_def round_double_9)

lemma int_to_float_10: "int_to_float 10 = Inr (Finite 10)"
  by (simp add: int_to_float_def round_double_10)

lemma as_num_is_number:
  "is_number k v \<Longrightarrow> as_num v = Some (NInt k) \<or> as_num v = Some (NFloat (Finite (of_int k)))"
  by (auto simp: is_number_def)

lemma iscr_formula_zeros:
  assumes "p = NInt 0 \<or> p = NFloat (Finite 0)"
    and "d = NInt 0 \<or> d = NFloat (Finite 0)"
    and "i = NInt 0 \<or> i = NFloat (Finite 0)"
  shows "iscr_formula p d i = Inr (Finite 1)"
  using assms
  by (auto simp: iscr_formula_def and_then_def int_to_float_0 int_to_float_1 fadd_def fdiv_def
      is_zero_def int_truediv_def round_double_0 round_double_1)

lemma iscr_formula_nines:
  assumes "p = NInt 9 \<or> p = NFloat (Finite 9)"
    and "d = NInt 0 \<or> d = NFloat (Finite 0)"
    and "i = NInt 9 \<or> i = NFloat (Finite 9)"
  shows "iscr_formula p d i = Inr (Finite 1)"
  using assms
  by (auto simp: iscr_formula_def and_then_def int_to_float_0 int_to_float_1 int_to_float_9
      int_to_float_10 fadd_def fdiv_def is_zero_def int_truediv_def round_double_0
      round_double_1 round_double_9 round_double_10)

lemma total_revenue_try_item:
  assumes "financial_entry data idx = Inr entry"
    and "line_items_of entry = Some items"
  shows "total_revenue_try data idx = py_float (item_or_zero items ''netRevenue'')"
  using assms by (simp add: total_revenue_try_def and_then_def line_item_of)

lemma line_items_of_absent:
  "map_of e ''pnl'' = None \<Longrightarrow> line_items_of (PDict e) = Some []"
  "map_of e ''pnl'' = Some (PDict p) \<Longrightarrow> map_of p ''lineItems'' = None \<Longrightarrow>
     line_items_of (PDict e) = Some []"
  by (simp_all add: line_items_of_def)

lemma except_key_value_cases:
  "except_key_value r =
     (if r = Inl KeyError \<or> r = Inl ValueError then Inr (PFloat (Finite 0)) else r)"
  by (cases r) (auto simp: except_key_value_def split: py_error.splits)

lemma financial_entry_object:
  "map_of d ''financials'' = Some (PDict kvs) \<Longrightarrow> financial_entry (PDict d) i = Inl KeyError"
  by (simp add: financial_entry_def and_then_def)

lemma invoke_eq:
  "f w = (r, w') \<Longrightarrow> invoke c f (w, cs) = (r, w', cs @ [c])"
  by (simp add: invoke_def)

lemma probe_calls:
  "\<exists>r w new. probe_model_5l_profit rule data (w0, cs) = (r, w, cs @ Call_latest_financial_index data # new)
     \<and> (\<forall>c \<in> set new. \<not> selects_latest c
           \<and> (\<exists>i. index_passed c = Some i \<and> fst (latest_financial_index rule data w0) = Inr i))"
proof -
  obtain r1 w1 where 1: "latest_financial_index rule data w0 = (r1, w1)" by force
  show ?thesis
  proof (cases r1)
    case (Inl e)
    then show ?thesis using 1 by (simp add: probe_model_5l_profit_def invoke_eq)
  next
    case i: (Inr i)
    obtain r2 w2 where 2: "total_revenue_5cr_flag rule data i w1 = (r2, w2)" by force
    show ?thesis
    proof (cases r2)
      case (Inl e)
      then show ?thesis using 1 i 2 by (simp add: probe_model_5l_profit_def invoke_eq)
    next
      case a: (Inr a)
      obtain r3 w3 where 3: "borrowing_to_revenue_flag rule data i w2 = (r3, w3)" by force
      show ?thesis
      proof (cases r3)
        case (Inl e)
        then show ?thesis using 1 i 2 a 3 by (simp add: probe_model_5l_profit_def invoke_eq)
      next
        case b: (Inr b)
        obtain r4 w4 where 4: "iscr_flag rule data i w3 = (r4, w4)" by force
        show ?thesis
          using 1 i 2 a 3 b 4
          by (cases r4) (simp_all add: probe_model_5l_profit_def invoke_eq)
      qed
    qed
  qed
qed

lemma probe_fst_stateless:
  assumes "stateless rule"
  shows "fst (probe_model_5l_profit rule data (w, cs)) = fst (probe_model_5l_profit rule data (w', cs'))"
proof -
  have l: "fst (latest_financial_index rule data v) = fst (latest_financial_index rule data v')" for v v'
    using assms by (simp add: stateless_def)
  have t: "fst (total_revenue_5cr_flag rule data i v) = fst (total_revenue_5cr_flag rule data i v')" for i v v'
    using assms by (simp add: stateless_def)
  have b: "fst (borrowing_to_revenue_flag rule data i v) = fst (borrowing_to_revenue_flag rule data i v')" for i v v'
    using assms by (simp add: stateless_def)
  have s: "fst (iscr_flag rule data i v) = fst (iscr_flag rule data i v')" for i v v'
    using assms by (simp add: stateless_def)
  obtain r1 w1 where p1: "latest_financial_index rule data w = (r1, w1)" by force
  obtain w1' where q1: "latest_financial_index rule data w' = (r1, w1')"
    using l [of w w'] p1 by (cases "latest_financial_index rule data w'") simp
  show ?thesis
  proof (cases r1)
    case (Inl e)
    then show ?thesis using p1 q1 by (simp add: probe_model_5l_profit_def invoke_eq)
  next
    case i: (Inr i)
    obtain r2 w2 where p2: "total_revenue_5cr_flag rule data i w1 = (r2, w2)" by force
    obtain w2' where q2: "total_revenue_5cr_flag rule data i w1' = (r2, w2')"
      using t [of i w1 w1'] p2 by (cases "total_revenue_5cr_flag rule data i w1'") simp
    show ?thesis
    proof (cases r2)
      case (Inl e)
      then show ?thesis using p1 q1 i p2 q2 by (simp add: probe_model_5l_profit_def invoke_eq)
    next
      case a: (Inr a)
      obtain r3 w3 where p3: "borrowing_to_revenue_flag rule data i w2 = (r3, w3)" by force
      obtain w3' where q3: "borrowing_to_revenue_flag rule data i w2' = (r3, w3')"
        using b [of i w2 w2'] p3 by (cases "borrowing_to_revenue_flag rule data i w2'") simp
      show ?thesis
      proof (cases r3)
        case (Inl e)
        then show ?thesis using p1 q1 i p2 q2 a p3 q3 by (simp add: probe_model_5l_profit_def invoke_eq)
      next
        case bb: (Inr bv)
        obtain r4 w4 where p4: "iscr_flag rule data i w3 = (r4, w4)" by force
        obtain w4' where q4: "iscr_flag rule data i w3' = (r4, w4')"
          using s [of i w3 w3'] p4 by (cases "iscr_flag rule data i w3'") simp
        show ?thesis
          using p1 q1 i p2 q2 a p3 q3 bb p4 q4
          by (cases r4) (simp_all add: probe_model_5l_profit_def invoke_eq)
      qed
    qed
  qed
qed

lemma quotient_of_25_2: "quotient_of (25 / 2) = (25, 2)"
proof -
  have e: "(25 / 2 :: rat) = Fract 25 2"
    by (simp add: Fract_of_int_quotient)
  show ?thesis
    unfolding e by (simp add: quotient_of_Fract Rat.normalize_def)
qed

lemma round_double_25_2: "round_double (25 / 2) = Finite (25 / 2)"
  by (simp add: round_double_def ilog2_def pow2_def round_half_even_def quotient_of_25_2)

lemma float_of_str_12_5: "float_of_str ''12.5'' = Some (Finite (25 / 2))"
  by (simp add: float_of_str_def strip_def is_space_def is_digit_def split_sign_def
      to_lower_def parse_decimal_def parse_exponent_def digits_val_def pow10_def
      round_double_25_2)

lemma float_of_str_separator: "float_of_str [CHR 0x1C, CHR ''1''] = None"
  by (simp add: float_of_str_def strip_def is_space_def is_digit_def split_sign_def
      to_lower_def parse_decimal_def)

lemma seq_index_error: "seq_index xs i = Inl e \<Longrightarrow> e = IndexError"
  by (auto simp: seq_index_def Let_def split: if_splits)

lemma py_getitem_KeyError: "py_getitem v i = Inl KeyError \<longleftrightarrow> (\<exists>kvs. v = PDict kvs)"
  by (cases v) (auto simp: and_then_def split: sum.splits dest: seq_index_error)

lemma py_getitem_not_ValueError: "py_getitem v i \<noteq> Inl ValueError"
  by (cases v) (auto simp: and_then_def split: sum.splits dest: seq_index_error)

lemma py_get_error: "py_get v k dflt = Inl e \<Longrightarrow> e = AttributeError"
  by (cases v) auto

lemma financial_entry_KeyError:
  "financial_entry data idx = Inl KeyError \<longleftrightarrow> financials_is_object data"
  by (cases data)
     (auto simp: financial_entry_def financials_is_object_def and_then_def py_getitem_KeyError
        split: option.splits pyval.splits)

lemma financial_entry_not_ValueError: "financial_entry data idx \<noteq> Inl ValueError"
  by (cases data)
     (auto simp: financial_entry_def and_then_def py_getitem_not_ValueError split: option.splits)

lemma line_item_error: "line_item entry name = Inl e \<Longrightarrow> e = AttributeError"
  by (auto simp: line_item_def and_then_def split: sum.splits dest: py_get_error)

lemma py_float_ValueError:
  "py_float v = Inl ValueError \<longleftrightarrow> (\<exists>s. v = PStr s \<and> float_of_str s = None)"
  by (cases v)
     (auto simp: py_float_def and_then_def split: option.splits sum.splits
        dest: int_to_float_error)

lemma py_float_not_KeyError: "py_float v \<noteq> Inl KeyError"
  by (cases v)
     (auto simp: py_float_def and_then_def split: option.splits sum.splits
        dest: int_to_float_error)

lemma py_add_error: "py_add a b = Inl e \<Longrightarrow> e = TypeError \<or> e = OverflowError"
  by (auto simp: py_add_def and_then_def split: option.splits sum.splits pyval.splits
      dest: num_add_error)

lemma py_truediv_error:
  "py_truediv a b = Inl e \<Longrightarrow> e = TypeError \<or> e = ZeroDivisionError \<or> e = OverflowError"
  by (auto simp: py_truediv_def and_then_def split: option.splits sum.splits
      dest: num_truediv_error)

lemma total_revenue_try_KeyError:
  "total_revenue_try data idx = Inl KeyError \<longleftrightarrow> financials_is_object data"
proof -
  have "total_revenue_try data idx = Inl KeyError \<longleftrightarrow> financial_entry data idx = Inl KeyError"
    by (auto simp: total_revenue_try_def and_then_def py_float_not_KeyError split: sum.splits
        dest: line_item_error)
  then show ?thesis by (simp add: financial_entry_KeyError)
qed

lemma total_revenue_try_ValueError:
  "total_revenue_try data idx = Inl ValueError \<longleftrightarrow>
     (\<exists>entry s. financial_entry data idx = Inr entry
        \<and> line_item entry ''netRevenue'' = Inr (PStr s) \<and> float_of_str s = None)"
  using financial_entry_not_ValueError [of data idx]
  by (auto simp: total_revenue_try_def and_then_def py_float_ValueError split: sum.splits
      dest: line_item_error)

lemma iscr_try_KeyError:
  "iscr_try data idx = Inl KeyError \<longleftrightarrow> financials_is_object data"
proof -
  have "iscr_try data idx = Inl KeyError \<longleftrightarrow> financial_entry data idx = Inl KeyError"
    by (auto simp: iscr_try_def and_then_def split: sum.splits
        dest: line_item_error py_add_error py_truediv_error)
  then show ?thesis by (simp add: financial_entry_KeyError)
qed

lemma iscr_try_not_ValueError: "iscr_try data idx \<noteq> Inl ValueError"
  using financial_entry_not_ValueError [of data idx]
  by (auto simp: iscr_try_def and_then_def split: sum.splits
      dest: line_item_error py_add_error py_truediv_error)

lemma iscr_outcome:
  assumes "financial_entry data idx = Inr entry"
    and "line_items_of entry = Some items"
    and "as_num (item_or_zero items ''profitBeforeInterestAndTax'') = Some p"
    and "as_num (item_or_zero items ''depreciation'') = Some d"
    and "as_num (item_or_zero items ''interestExpenses'') = Some i"
  shows "iscr data idx = (case iscr_formula p d i of Inl e \<Rightarrow> Inl e | Inr f \<Rightarrow> Inr (PFloat f))"
proof (cases "iscr_formula p d i")
  case (Inl e)
  then have "e = ZeroDivisionError \<or> e = OverflowError"
    by (rule iscr_formula_error)
  then show ?thesis
    using Inl iscr_try_formula [OF assms]
    by (auto simp: iscr_def and_then_def except_key_value_def)
next
  case (Inr f)
  then show ?thesis
    using iscr_try_formula [OF assms]
    by (simp add: iscr_def and_then_def except_key_value_def)
qed

section \<open>The claims\<close>

text \<open>
  C1. For every record and index whose entry exists, \<^verbatim>\<open>iscr\<close> is to return
  \<open>(profitBeforeInterestAndTax + depreciation + 1) / (interestExpenses + 1)\<close>, and
  the docstring of \<^verbatim>\<open>iscr\<close> says that the \<open>1\<close> is added to avoid a division by
  zero. On the record below the entry exists and holds three integer line items, with
  \<^verbatim>\<open>interestExpenses\<close> equal to \<open>-1\<close>; the code divides by zero and raises
  \<^verbatim>\<open>ZeroDivisionError\<close>, which its handler does not catch, so it returns nothing.
\<close>

theorem iscr_raises_on_zero_denominator:
  "financial_entry record_zero_denominator 0 =
     Inr (PDict [(''pnl'', PDict [(''lineItems'',
       PDict [(''profitBeforeInterestAndTax'', PInt 5),
              (''depreciation'', PInt 2),
              (''interestExpenses'', PInt (- 1))])])])
   \<and> iscr record_zero_denominator 0 = Inl ZeroDivisionError"
  by (simp add: record_zero_denominator_def financial_entry_def iscr_def iscr_try_def
      line_item_def py_add_def py_truediv_def and_then_def seq_index_def int_truediv_def
      except_key_value_def)

text \<open>
  C9. There is an input on which \<^verbatim>\<open>iscr\<close> raises \<^verbatim>\<open>ZeroDivisionError\<close>: whenever
  the entry exists, the numerator \<open>profitBeforeInterestAndTax + depreciation + 1\<close> has a
  value and \<^verbatim>\<open>interestExpenses\<close> is the number \<open>-1\<close> (the integer, or the float
  together with a numerator that fits a float), the denominator is zero and the error
  passes the handler, which names \<^verbatim>\<open>KeyError\<close> and \<^verbatim>\<open>ValueError\<close> only.
\<close>

theorem iscr_zero_division:
  assumes "financial_entry data idx = Inr entry"
    and "line_items_of entry = Some items"
    and "as_num (item_or_zero items ''profitBeforeInterestAndTax'') = Some p"
    and "as_num (item_or_zero items ''depreciation'') = Some d"
    and "and_then (num_add p d) (\<lambda>s. num_add s (NInt 1)) = Inr n"
    and "map_of items ''interestExpenses'' = Some v"
    and "v = PInt (- 1) \<or> v = PFloat (Finite (- 1)) \<and> num_to_float n \<noteq> Inl OverflowError"
  shows "iscr data idx = Inl ZeroDivisionError"
proof -
  have item: "item_or_zero items ''interestExpenses'' = v"
    using assms(6) by (simp add: item_or_zero_def)
  from assms(7) obtain i where i: "as_num v = Some i"
    and div: "and_then (num_add i (NInt 1)) (\<lambda>m. num_truediv n m) = Inl ZeroDivisionError"
  proof
    assume v: "v = PInt (- 1)"
    have "and_then (num_add (NInt (- 1)) (NInt 1)) (\<lambda>m. num_truediv n m) = Inl ZeroDivisionError"
      by (cases n) (simp_all add: and_then_def int_truediv_def int_to_float_0 is_zero_def)
    with v show ?thesis by (intro that [of "NInt (- 1)"]) simp_all
  next
    assume v: "v = PFloat (Finite (- 1)) \<and> num_to_float n \<noteq> Inl OverflowError"
    have m: "num_add (NFloat (Finite (- 1))) (NInt 1) = Inr (NFloat (Finite 0))"
      by (simp add: and_then_def int_to_float_1 fadd_def round_double_def)
    obtain nf where nf: "num_to_float n = Inr nf"
      using v int_to_float_cases by (cases n) auto
    have "num_truediv n (NFloat (Finite 0)) = Inl ZeroDivisionError"
      using nf by (cases n) (simp_all add: and_then_def is_zero_def)
    with m v show ?thesis by (intro that [of "NFloat (Finite (- 1))"]) (simp_all add: and_then_def)
  qed
  have "iscr_formula p d i = Inl ZeroDivisionError"
    using assms(5) div by (auto simp: iscr_formula_def and_then_def split: sum.splits)
  moreover have "as_num (item_or_zero items ''interestExpenses'') = Some i"
    using item i by simp
  ultimately show ?thesis
    using iscr_outcome [OF assms(1-4)] by simp
qed

theorem iscr_zero_division_witness:
  "iscr record_interest_only 0 = Inl ZeroDivisionError"
proof -
  let ?items = "[(''interestExpenses'', PFloat (Finite (- 1)))]"
  let ?entry = "PDict [(''pnl'', PDict [(''lineItems'', PDict ?items)])]"
  have 1: "financial_entry record_interest_only 0 = Inr ?entry"
    by (simp add: record_interest_only_def financial_entry_def and_then_def seq_index_def)
  have 2: "line_items_of ?entry = Some ?items"
    by (simp add: line_items_of_def)
  have 3: "as_num (item_or_zero ?items ''profitBeforeInterestAndTax'') = Some (NInt 0)"
    by (simp add: item_or_zero_def)
  have 4: "as_num (item_or_zero ?items ''depreciation'') = Some (NInt 0)"
    by (simp add: item_or_zero_def)
  have 5: "and_then (num_add (NInt 0) (NInt 0)) (\<lambda>s. num_add s (NInt 1)) = Inr (NInt 1)"
    by (simp add: and_then_def)
  have 6: "map_of ?items ''interestExpenses'' = Some (PFloat (Finite (- 1)))"
    by simp
  have 7: "PFloat (Finite (- 1)) = PInt (- 1)
           \<or> PFloat (Finite (- 1)) = PFloat (Finite (- 1))
             \<and> num_to_float (NInt 1) \<noteq> Inl OverflowError"
    by (simp add: int_to_float_1)
  show ?thesis
    using iscr_zero_division [OF 1 2 3 4 5 6 7] .
qed

text \<open>
  C7. For every record and valid index whose entry has the string \<^verbatim>\<open>"not-a-number"\<close>
  as its \<^verbatim>\<open>pnl.lineItems.netRevenue\<close>, \<^verbatim>\<open>total_revenue\<close> returns \<open>0.0\<close> and
  does not raise: \<^verbatim>\<open>float\<close> rejects the string with a \<^verbatim>\<open>ValueError\<close>, which the
  handler catches.
\<close>

theorem total_revenue_not_a_number:
  assumes "financial_entry data i = Inr entry"
    and "line_items_of entry = Some items"
    and "map_of items ''netRevenue'' = Some (PStr ''not-a-number'')"
  shows "total_revenue data i = Inr (PFloat (Finite 0))"
  using assms
  by (simp add: total_revenue_def total_revenue_try_def and_then_def line_item_of
      item_or_zero_def py_float_def float_of_str_not_a_number except_key_value_def)

theorem total_revenue_not_a_number_witness:
  "total_revenue record_not_a_number 0 = Inr (PFloat (Finite 0))"
proof -
  let ?items = "[(''netRevenue'', PStr ''not-a-number'')]"
  let ?entry = "PDict [(''pnl'', PDict [(''lineItems'', PDict ?items)])]"
  have 1: "financial_entry record_not_a_number 0 = Inr ?entry"
    by (simp add: record_not_a_number_def financial_entry_def and_then_def seq_index_def)
  have 2: "line_items_of ?entry = Some ?items"
    by (simp add: line_items_of_def)
  have 3: "map_of ?items ''netRevenue'' = Some (PStr ''not-a-number'')"
    by simp
  show ?thesis
    using total_revenue_not_a_number [OF 1 2 3] .
qed

text \<open>
  C10. For every record whose \<^verbatim>\<open>financials\<close> value is a list and every index outside
  the list's range (negative indices count from the end), \<^verbatim>\<open>total_revenue\<close> and
  \<^verbatim>\<open>iscr\<close> raise \<^verbatim>\<open>IndexError\<close> instead of returning \<open>0.0\<close>: the handler names
  \<^verbatim>\<open>KeyError\<close> and \<^verbatim>\<open>ValueError\<close> only.
\<close>

theorem index_out_of_range_raises:
  assumes "map_of d ''financials'' = Some (PList xs)"
    and "i < - int (length xs) \<or> int (length xs) \<le> i"
  shows "total_revenue (PDict d) i = Inl IndexError \<and> iscr (PDict d) i = Inl IndexError"
proof -
  have "financial_entry (PDict d) i = Inl IndexError"
    using assms by (simp add: financial_entry_list seq_index_out_of_range)
  then show ?thesis
    by (simp add: total_revenue_def total_revenue_try_def iscr_def iscr_try_def
        and_then_def except_key_value_def)
qed

theorem index_out_of_range_raises_witness:
  "total_revenue (PDict [(''financials'', PList [PDict []])]) 1 = Inl IndexError
   \<and> iscr (PDict [(''financials'', PList [PDict []])]) 1 = Inl IndexError"
  using index_out_of_range_raises [of "[(''financials'', PList [PDict []])]" "[PDict []]" 1]
  by simp

text \<open>
  C6. For every record and valid index whose entry has \<^verbatim>\<open>profitBeforeInterestAndTax\<close>,
  \<^verbatim>\<open>depreciation\<close> and \<^verbatim>\<open>interestExpenses\<close> equal to \<open>0, 0, 0\<close>, and likewise
  for \<open>9, 0, 9\<close>, \<^verbatim>\<open>iscr\<close> returns exactly \<open>1.0\<close>. Each value may be the JSON
  integer or the JSON float.
\<close>

theorem iscr_exactly_one:
  assumes "financial_entry data idx = Inr entry"
    and "line_items_of entry = Some items"
    and "map_of items ''profitBeforeInterestAndTax'' = Some p"
    and "map_of items ''depreciation'' = Some d"
    and "map_of items ''interestExpenses'' = Some i"
    and "is_number 0 p \<and> is_number 0 d \<and> is_number 0 i
         \<or> is_number 9 p \<and> is_number 0 d \<and> is_number 9 i"
  shows "iscr data idx = Inr (PFloat (Finite 1))"
proof -
  have items: "item_or_zero items ''profitBeforeInterestAndTax'' = p"
    "item_or_zero items ''depreciation'' = d"
    "item_or_zero items ''interestExpenses'' = i"
    using assms(3-5) by (simp_all add: item_or_zero_def)
  from assms(6) obtain np nd ni where nums: "as_num p = Some np" "as_num d = Some nd"
      "as_num i = Some ni" and one: "iscr_formula np nd ni = Inr (Finite 1)"
  proof
    assume a: "is_number 0 p \<and> is_number 0 d \<and> is_number 0 i"
    then obtain np nd ni where n: "as_num p = Some np" "as_num d = Some nd" "as_num i = Some ni"
      and "np = NInt 0 \<or> np = NFloat (Finite 0)" "nd = NInt 0 \<or> nd = NFloat (Finite 0)"
      "ni = NInt 0 \<or> ni = NFloat (Finite 0)"
      by (auto simp: is_number_def)
    then show ?thesis
      using that iscr_formula_zeros by blast
  next
    assume a: "is_number 9 p \<and> is_number 0 d \<and> is_number 9 i"
    then obtain np nd ni where n: "as_num p = Some np" "as_num d = Some nd" "as_num i = Some ni"
      and "np = NInt 9 \<or> np = NFloat (Finite 9)" "nd = NInt 0 \<or> nd = NFloat (Finite 0)"
      "ni = NInt 9 \<or> ni = NFloat (Finite 9)"
      by (auto simp: is_number_def)
    then show ?thesis
      using that iscr_formula_nines by blast
  qed
  show ?thesis
    using iscr_try_formula [OF assms(1,2), of np nd ni] items nums one
    by (simp add: iscr_def and_then_def except_key_value_def)
qed

theorem iscr_exactly_one_witness:
  "iscr record_all_zero 0 = Inr (PFloat (Finite 1))
   \<and> iscr record_nine 0 = Inr (PFloat (Finite 1))"
proof
  let ?items = "[(''profitBeforeInterestAndTax'', PInt 0),
                 (''depreciation'', PFloat (Finite 0)),
                 (''interestExpenses'', PInt 0)]"
  let ?entry = "PDict [(''pnl'', PDict [(''lineItems'', PDict ?items)])]"
  have 1: "financial_entry record_all_zero 0 = Inr ?entry"
    by (simp add: record_all_zero_def financial_entry_def and_then_def seq_index_def)
  have 2: "line_items_of ?entry = Some ?items"
    by (simp add: line_items_of_def)
  have 3: "map_of ?items ''profitBeforeInterestAndTax'' = Some (PInt 0)"
    and 4: "map_of ?items ''depreciation'' = Some (PFloat (Finite 0))"
    and 5: "map_of ?items ''interestExpenses'' = Some (PInt 0)"
    by simp_all
  have 6: "is_number 0 (PInt 0) \<and> is_number 0 (PFloat (Finite 0)) \<and> is_number 0 (PInt 0)
           \<or> is_number 9 (PInt 0) \<and> is_number 0 (PFloat (Finite 0)) \<and> is_number 9 (PInt 0)"
    by (simp add: is_number_def)
  show "iscr record_all_zero 0 = Inr (PFloat (Finite 1))"
    using iscr_exactly_one [OF 1 2 3 4 5 6] .
next
  let ?items = "[(''profitBeforeInterestAndTax'', PInt 9),
                 (''depreciation'', PInt 0),
                 (''interestExpenses'', PFloat (Finite 9))]"
  let ?entry = "PDict [(''pnl'', PDict [(''lineItems'', PDict ?items)])]"
  have 1: "financial_entry record_nine 0 = Inr ?entry"
    by (simp add: record_nine_def financial_entry_def and_then_def seq_index_def)
  have 2: "line_items_of ?entry = Some ?items"
    by (simp add: line_items_of_def)
  have 3: "map_of ?items ''profitBeforeInterestAndTax'' = Some (PInt 9)"
    and 4: "map_of ?items ''depreciation'' = Some (PInt 0)"
    and 5: "map_of ?items ''interestExpenses'' = Some (PFloat (Finite 9))"
    by simp_all
  have 6: "is_number 0 (PInt 9) \<and> is_number 0 (PInt 0) \<and> is_number 0 (PFloat (Finite 9))
           \<or> is_number 9 (PInt 9) \<and> is_number 0 (PInt 0) \<and> is_number 9 (PFloat (Finite 9))"
    by (simp add: is_number_def)
  show "iscr record_nine 0 = Inr (PFloat (Finite 1))"
    using iscr_exactly_one [OF 1 2 3 4 5 6] .
qed

text \<open>
  C3, as amended. For every record and index whose entry exists and is an object with
  \<^verbatim>\<open>pnl\<close> and \<^verbatim>\<open>lineItems\<close> objects or absent, \<^verbatim>\<open>total_revenue\<close> returns
  \<open>0.0\<close> when \<^verbatim>\<open>netRevenue\<close> is absent (in particular when \<^verbatim>\<open>pnl\<close> or
  \<^verbatim>\<open>lineItems\<close> is absent, see \<open>line_items_of_absent\<close>), and returns the float value
  of \<^verbatim>\<open>netRevenue\<close> when that is a number that has one (a float, or an integer that
  rounds to a magnitude below \<open>2^1024\<close>) or a string that \<^verbatim>\<open>float\<close> converts.
\<close>

theorem total_revenue_value:
  assumes "financial_entry data idx = Inr entry"
    and "line_items_of entry = Some items"
  shows "(map_of items ''netRevenue'' = None \<longrightarrow>
            total_revenue data idx = Inr (PFloat (Finite 0)))
       \<and> (\<forall>v n f. map_of items ''netRevenue'' = Some v \<and> as_num v = Some n
                   \<and> num_to_float n = Inr f \<longrightarrow>
            total_revenue data idx = Inr (PFloat f))
       \<and> (\<forall>s f. map_of items ''netRevenue'' = Some (PStr s) \<and> float_of_str s = Some f \<longrightarrow>
            total_revenue data idx = Inr (PFloat f))"
proof (intro conjI impI allI)
  assume "map_of items ''netRevenue'' = None"
  then show "total_revenue data idx = Inr (PFloat (Finite 0))"
    using total_revenue_try_item [OF assms]
    by (simp add: total_revenue_def item_or_zero_def py_float_def and_then_def int_to_float_0
        except_key_value_def)
next
  fix v n f
  assume a: "map_of items ''netRevenue'' = Some v \<and> as_num v = Some n \<and> num_to_float n = Inr f"
  then have "py_float v = Inr (PFloat f)"
    by (cases v) (auto simp: py_float_def and_then_def)
  with a show "total_revenue data idx = Inr (PFloat f)"
    using total_revenue_try_item [OF assms]
    by (simp add: total_revenue_def item_or_zero_def except_key_value_def)
next
  fix s f
  assume a: "map_of items ''netRevenue'' = Some (PStr s) \<and> float_of_str s = Some f"
  then show "total_revenue data idx = Inr (PFloat f)"
    using total_revenue_try_item [OF assms]
    by (simp add: total_revenue_def item_or_zero_def py_float_def except_key_value_def)
qed

theorem total_revenue_value_witness:
  "total_revenue record_empty_entry 0 = Inr (PFloat (Finite 0))
   \<and> total_revenue record_revenue 0 = Inr (PFloat (Finite 60000000))
   \<and> total_revenue record_text_revenue 0 = Inr (PFloat (Finite (25 / 2)))"
proof (intro conjI)
  have 1: "financial_entry record_empty_entry 0 = Inr (PDict [])"
    by (simp add: record_empty_entry_def financial_entry_def and_then_def seq_index_def)
  have 2: "line_items_of (PDict []) = Some []"
    by (simp add: line_items_of_def)
  show "total_revenue record_empty_entry 0 = Inr (PFloat (Finite 0))"
    using total_revenue_value [OF 1 2] by simp
next
  let ?items = "[(''netRevenue'', PInt 60000000)]"
  let ?entry = "PDict [(''pnl'', PDict [(''lineItems'', PDict ?items)])]"
  have 1: "financial_entry record_revenue 0 = Inr ?entry"
    by (simp add: record_revenue_def financial_entry_def and_then_def seq_index_def)
  have 2: "line_items_of ?entry = Some ?items"
    by (simp add: line_items_of_def)
  have 3: "map_of ?items ''netRevenue'' = Some (PInt 60000000)
           \<and> as_num (PInt 60000000) = Some (NInt 60000000)
           \<and> num_to_float (NInt 60000000) = Inr (Finite 60000000)"
    by (simp add: int_to_float_def round_double_def ilog2_def pow2_def round_half_even_def)
  show "total_revenue record_revenue 0 = Inr (PFloat (Finite 60000000))"
    using total_revenue_value [OF 1 2] 3 by blast
next
  let ?items = "[(''netRevenue'', PStr ''12.5'')]"
  let ?entry = "PDict [(''pnl'', PDict [(''lineItems'', PDict ?items)])]"
  have 1: "financial_entry record_text_revenue 0 = Inr ?entry"
    by (simp add: record_text_revenue_def financial_entry_def and_then_def seq_index_def)
  have 2: "line_items_of ?entry = Some ?items"
    by (simp add: line_items_of_def)
  have 3: "map_of ?items ''netRevenue'' = Some (PStr ''12.5'')
           \<and> float_of_str ''12.5'' = Some (Finite (25 / 2))"
    by (simp add: float_of_str_12_5)
  show "total_revenue record_text_revenue 0 = Inr (PFloat (Finite (25 / 2)))"
    using total_revenue_value [OF 1 2] 3 by blast
qed

text \<open>
  C3 as stated fails: the entry exists, its \<^verbatim>\<open>netRevenue\<close> is the integer \<open>2^1024\<close>,
  and \<^verbatim>\<open>float\<close> raises \<^verbatim>\<open>OverflowError\<close>, which the handler does not catch.
\<close>

theorem total_revenue_value_counterexample:
  "financial_entry record_huge_revenue 0 =
     Inr (PDict [(''pnl'', PDict [(''lineItems'', PDict [(''netRevenue'', PInt (2 ^ 1024))])])])
   \<and> total_revenue record_huge_revenue 0 = Inl OverflowError"
proof -
  have "py_float (PInt (2 ^ 1024)) = Inl OverflowError"
    using int_to_float_overflow by (simp add: py_float_def and_then_def)
  then show ?thesis
    by (simp add: record_huge_revenue_def financial_entry_def total_revenue_def
        total_revenue_try_def line_item_def and_then_def seq_index_def except_key_value_def
        del: power_numeral)
qed

text \<open>
  C2, as amended. For every record and index, \<^verbatim>\<open>total_revenue\<close> and \<^verbatim>\<open>iscr\<close>
  never raise \<^verbatim>\<open>KeyError\<close> or \<^verbatim>\<open>ValueError\<close>: whenever the body raises one of the
  two, the function returns \<open>0.0\<close>. The body raises \<^verbatim>\<open>KeyError\<close> exactly when
  \<^verbatim>\<open>financials\<close> holds an object, where the integer index is an absent key; the body
  of \<^verbatim>\<open>total_revenue\<close> raises \<^verbatim>\<open>ValueError\<close> exactly when the entry's
  \<^verbatim>\<open>netRevenue\<close> is a string that \<^verbatim>\<open>float\<close> rejects, and the body of
  \<^verbatim>\<open>iscr\<close> never does. Every other outcome of the body, a value or an exception of
  another kind, is the outcome of the function.
\<close>

theorem handler_scope:
  "total_revenue data idx \<noteq> Inl KeyError \<and> total_revenue data idx \<noteq> Inl ValueError
   \<and> iscr data idx \<noteq> Inl KeyError \<and> iscr data idx \<noteq> Inl ValueError
   \<and> (total_revenue_try data idx = Inl KeyError \<longleftrightarrow> financials_is_object data)
   \<and> (total_revenue_try data idx = Inl ValueError \<longleftrightarrow>
        (\<exists>entry s. financial_entry data idx = Inr entry
           \<and> line_item entry ''netRevenue'' = Inr (PStr s) \<and> float_of_str s = None))
   \<and> (iscr_try data idx = Inl KeyError \<longleftrightarrow> financials_is_object data)
   \<and> iscr_try data idx \<noteq> Inl ValueError
   \<and> (total_revenue_try data idx = Inl KeyError \<or> total_revenue_try data idx = Inl ValueError \<longrightarrow>
        total_revenue data idx = Inr (PFloat (Finite 0)))
   \<and> (iscr_try data idx = Inl KeyError \<longrightarrow> iscr data idx = Inr (PFloat (Finite 0)))
   \<and> (total_revenue_try data idx \<noteq> Inl KeyError \<and> total_revenue_try data idx \<noteq> Inl ValueError \<longrightarrow>
        total_revenue data idx = total_revenue_try data idx)
   \<and> (iscr_try data idx \<noteq> Inl KeyError \<longrightarrow> iscr data idx = iscr_try data idx)"
proof -
  note nv = iscr_try_not_ValueError [of data idx]
  have never: "total_revenue data idx \<noteq> Inl KeyError \<and> total_revenue data idx \<noteq> Inl ValueError
      \<and> iscr data idx \<noteq> Inl KeyError \<and> iscr data idx \<noteq> Inl ValueError"
    by (auto simp: total_revenue_def iscr_def except_key_value_cases)
  have caught: "(total_revenue_try data idx = Inl KeyError
        \<or> total_revenue_try data idx = Inl ValueError \<longrightarrow>
          total_revenue data idx = Inr (PFloat (Finite 0)))
      \<and> (iscr_try data idx = Inl KeyError \<longrightarrow> iscr data idx = Inr (PFloat (Finite 0)))"
    by (auto simp: total_revenue_def iscr_def except_key_value_cases)
  have passed: "(total_revenue_try data idx \<noteq> Inl KeyError
        \<and> total_revenue_try data idx \<noteq> Inl ValueError \<longrightarrow>
          total_revenue data idx = total_revenue_try data idx)
      \<and> (iscr_try data idx \<noteq> Inl KeyError \<longrightarrow> iscr data idx = iscr_try data idx)"
    using nv by (auto simp: total_revenue_def iscr_def except_key_value_cases)
  show ?thesis
    using never caught passed nv total_revenue_try_KeyError [of data idx]
      total_revenue_try_ValueError [of data idx] iscr_try_KeyError [of data idx]
    by blast
qed

theorem handler_scope_witness:
  "total_revenue_try record_not_a_number 0 = Inl ValueError
   \<and> total_revenue record_not_a_number 0 = Inr (PFloat (Finite 0))
   \<and> total_revenue_try record_separator_revenue 0 = Inl ValueError
   \<and> total_revenue record_separator_revenue 0 = Inr (PFloat (Finite 0))
   \<and> financials_is_object record_financials_object
   \<and> iscr_try record_financials_object 0 = Inl KeyError
   \<and> iscr record_financials_object 0 = Inr (PFloat (Finite 0))
   \<and> total_revenue_try record_financials_object 0 = Inl KeyError
   \<and> total_revenue record_financials_object 0 = Inr (PFloat (Finite 0))
   \<and> iscr_try record_empty_entry 0 = Inr (PFloat (Finite 1))
   \<and> iscr record_empty_entry 0 = Inr (PFloat (Finite 1))
   \<and> total_revenue_try record_empty_entry 0 = Inr (PFloat (Finite 0))
   \<and> total_revenue record_empty_entry 0 = Inr (PFloat (Finite 0))"
proof -
  have 1: "total_revenue_try record_not_a_number 0 = Inl ValueError"
    by (simp add: record_not_a_number_def total_revenue_try_def financial_entry_def
        line_item_def and_then_def seq_index_def py_float_def float_of_str_not_a_number)
  have 2: "total_revenue_try record_separator_revenue 0 = Inl ValueError"
    by (simp add: record_separator_revenue_def total_revenue_try_def financial_entry_def
        line_item_def and_then_def seq_index_def py_float_def float_of_str_separator)
  have 3: "financials_is_object record_financials_object"
    by (simp add: record_financials_object_def financials_is_object_def)
  have 4: "iscr_try record_empty_entry 0 = Inr (PFloat (Finite 1))"
    by (simp add: record_empty_entry_def iscr_try_def financial_entry_def line_item_def
        and_then_def seq_index_def py_add_def py_truediv_def int_truediv_def round_double_1)
  have 5: "total_revenue_try record_empty_entry 0 = Inr (PFloat (Finite 0))"
    by (simp add: record_empty_entry_def total_revenue_try_def financial_entry_def
        line_item_def and_then_def seq_index_def py_float_def int_to_float_0)
  have a: "total_revenue record_not_a_number 0 = Inr (PFloat (Finite 0))"
    using handler_scope [of record_not_a_number 0] 1 by blast
  have b: "total_revenue record_separator_revenue 0 = Inr (PFloat (Finite 0))"
    using handler_scope [of record_separator_revenue 0] 2 by blast
  have c: "iscr_try record_financials_object 0 = Inl KeyError
      \<and> iscr record_financials_object 0 = Inr (PFloat (Finite 0))
      \<and> total_revenue_try record_financials_object 0 = Inl KeyError
      \<and> total_revenue record_financials_object 0 = Inr (PFloat (Finite 0))"
    using handler_scope [of record_financials_object 0] 3 by blast
  have "iscr_try record_empty_entry 0 \<noteq> Inl KeyError"
    using 4 by simp
  then have d: "iscr record_empty_entry 0 = Inr (PFloat (Finite 1))"
    using handler_scope [of record_empty_entry 0] 4 by metis
  have "total_revenue_try record_empty_entry 0 \<noteq> Inl KeyError
      \<and> total_revenue_try record_empty_entry 0 \<noteq> Inl ValueError"
    using 5 by simp
  then have e: "total_revenue record_empty_entry 0 = Inr (PFloat (Finite 0))"
    using handler_scope [of record_empty_entry 0] 5 by metis
  show ?thesis
    using 1 2 3 4 5 a b c d e by simp
qed

text \<open>
  C2 as stated fails: a field that is present but not numeric raises \<^verbatim>\<open>TypeError\<close>,
  in \<^verbatim>\<open>total_revenue\<close> for a \<^verbatim>\<open>null\<close> \<^verbatim>\<open>netRevenue\<close> and in \<^verbatim>\<open>iscr\<close> for a
  string \<^verbatim>\<open>interestExpenses\<close>.
\<close>

theorem handler_scope_counterexample:
  "total_revenue record_null_revenue 0 = Inl TypeError
   \<and> iscr record_text_interest 0 = Inl TypeError"
  by (simp add: record_null_revenue_def record_text_interest_def total_revenue_def
      total_revenue_try_def iscr_def iscr_try_def financial_entry_def line_item_def
      and_then_def seq_index_def py_float_def py_add_def except_key_value_def)

text \<open>
  C4. Whenever the four rule functions return on the record, \<^verbatim>\<open>probe_model_5l_profit\<close>
  returns the mapping whose single key \<^verbatim>\<open>"flags"\<close> holds a mapping with exactly the
  keys \<^verbatim>\<open>TOTAL_REVENUE_5CR_FLAG\<close>, \<^verbatim>\<open>BORROWING_TO_REVENUE_FLAG\<close> and
  \<^verbatim>\<open>ISCR_FLAG\<close>, bound to the results of \<^verbatim>\<open>total_revenue_5cr_flag\<close>,
  \<^verbatim>\<open>borrowing_to_revenue_flag\<close> and \<^verbatim>\<open>iscr_flag\<close> applied to the record and the
  index that \<^verbatim>\<open>latest_financial_index\<close> returned.
\<close>

theorem probe_result:
  assumes "latest_financial_index rule data w0 = (Inr idx, w1)"
    and "total_revenue_5cr_flag rule data idx w1 = (Inr a, w2)"
    and "borrowing_to_revenue_flag rule data idx w2 = (Inr b, w3)"
    and "iscr_flag rule data idx w3 = (Inr c, w4)"
  shows "fst (probe_model_5l_profit rule data (w0, cs)) =
           Inr (PDict [(''flags'', PDict
             [(''TOTAL_REVENUE_5CR_FLAG'', a),
              (''BORROWING_TO_REVENUE_FLAG'', b),
              (''ISCR_FLAG'', c)])])"
  using assms by (simp add: probe_model_5l_profit_def invoke_eq)

theorem probe_result_witness:
  "fst (probe_model_5l_profit example_rule record_revenue (0, [])) =
     Inr (PDict [(''flags'', PDict
       [(''TOTAL_REVENUE_5CR_FLAG'', PBool True),
        (''BORROWING_TO_REVENUE_FLAG'', PBool False),
        (''ISCR_FLAG'', PBool False)])])"
proof -
  have 1: "latest_financial_index example_rule record_revenue 0 = (Inr (PInt 0), 1)"
    and 2: "total_revenue_5cr_flag example_rule record_revenue (PInt 0) 1 = (Inr (PBool True), 2)"
    and 3: "borrowing_to_revenue_flag example_rule record_revenue (PInt 0) 2 = (Inr (PBool False), 3)"
    and 4: "iscr_flag example_rule record_revenue (PInt 0) 3 = (Inr (PBool False), 4)"
    by (simp_all add: example_rule_def)
  show ?thesis
    using probe_result [OF 1 2 3 4] .
qed

text \<open>
  C5. In every invocation of \<^verbatim>\<open>probe_model_5l_profit\<close> the body calls
  \<^verbatim>\<open>latest_financial_index\<close> exactly once; every call of a flag function that the body
  makes receives the index that this one call returned; and when no call raises, the calls
  are that one selection followed by the three flag functions on the record and the index.
\<close>

theorem probe_selects_once:
  "length (filter selects_latest (snd (snd (probe_model_5l_profit rule data (w0, []))))) = 1
   \<and> (\<forall>c \<in> set (snd (snd (probe_model_5l_profit rule data (w0, [])))).
         \<forall>i. index_passed c = Some i \<longrightarrow> fst (latest_financial_index rule data w0) = Inr i)
   \<and> (\<forall>i w1 a w2 b w3 c w4.
         latest_financial_index rule data w0 = (Inr i, w1)
         \<and> total_revenue_5cr_flag rule data i w1 = (Inr a, w2)
         \<and> borrowing_to_revenue_flag rule data i w2 = (Inr b, w3)
         \<and> iscr_flag rule data i w3 = (Inr c, w4) \<longrightarrow>
         snd (snd (probe_model_5l_profit rule data (w0, []))) =
           [Call_latest_financial_index data, Call_total_revenue_5cr_flag data i,
            Call_borrowing_to_revenue_flag data i, Call_iscr_flag data i])"
proof -
  obtain r w new where p: "probe_model_5l_profit rule data (w0, []) = (r, w, [] @ Call_latest_financial_index data # new)"
    and new: "\<forall>c \<in> set new. \<not> selects_latest c
           \<and> (\<exists>i. index_passed c = Some i \<and> fst (latest_financial_index rule data w0) = Inr i)"
    using probe_calls [of rule data w0 "[]"] by blast
  have "filter selects_latest new = []"
    using new by (simp add: filter_empty_conv)
  then have one: "length (filter selects_latest (snd (snd (probe_model_5l_profit rule data (w0, []))))) = 1"
    using p by simp
  have two: "\<forall>c \<in> set (snd (snd (probe_model_5l_profit rule data (w0, [])))).
         \<forall>i. index_passed c = Some i \<longrightarrow> fst (latest_financial_index rule data w0) = Inr i"
    using p new by auto
  have three: "snd (snd (probe_model_5l_profit rule data (w0, []))) =
           [Call_latest_financial_index data, Call_total_revenue_5cr_flag data i,
            Call_borrowing_to_revenue_flag data i, Call_iscr_flag data i]"
    if "latest_financial_index rule data w0 = (Inr i, w1)"
      "total_revenue_5cr_flag rule data i w1 = (Inr a, w2)"
      "borrowing_to_revenue_flag rule data i w2 = (Inr b, w3)"
      "iscr_flag rule data i w3 = (Inr c, w4)" for i w1 a w2 b w3 c w4
    using that by (simp add: probe_model_5l_profit_def invoke_eq)
  show ?thesis
    using one two three by blast
qed

theorem probe_selects_once_witness:
  "length (filter selects_latest
     (snd (snd (probe_model_5l_profit example_rule record_revenue (0, []))))) = 1
   \<and> snd (snd (probe_model_5l_profit example_rule record_revenue (0, []))) =
       [Call_latest_financial_index record_revenue,
        Call_total_revenue_5cr_flag record_revenue (PInt 0),
        Call_borrowing_to_revenue_flag record_revenue (PInt 0),
        Call_iscr_flag record_revenue (PInt 0)]"
proof -
  have calls: "latest_financial_index example_rule record_revenue 0 = (Inr (PInt 0), 1)
     \<and> total_revenue_5cr_flag example_rule record_revenue (PInt 0) 1 = (Inr (PBool True), 2)
     \<and> borrowing_to_revenue_flag example_rule record_revenue (PInt 0) 2 = (Inr (PBool False), 3)
     \<and> iscr_flag example_rule record_revenue (PInt 0) 3 = (Inr (PBool False), 4)"
    by (simp add: example_rule_def)
  note once = probe_selects_once [of example_rule record_revenue 0]
  have a: "length (filter selects_latest
     (snd (snd (probe_model_5l_profit example_rule record_revenue (0, []))))) = 1"
    using once by blast
  have b: "snd (snd (probe_model_5l_profit example_rule record_revenue (0, []))) =
       [Call_latest_financial_index record_revenue,
        Call_total_revenue_5cr_flag record_revenue (PInt 0),
        Call_borrowing_to_revenue_flag record_revenue (PInt 0),
        Call_iscr_flag record_revenue (PInt 0)]"
    using once calls by blast
  show ?thesis
    using a b by simp
qed

text \<open>
  C8. \<^verbatim>\<open>probe_model_5l_profit\<close> is deterministic: when the rule functions do not
  depend on their world, a second invocation on the same record, started in whatever world
  the first one left, returns the same output (or raises the same exception) as the first.
\<close>

theorem probe_deterministic:
  assumes "stateless rule"
  shows "fst (probe_model_5l_profit rule data (snd (probe_model_5l_profit rule data st)))
           = fst (probe_model_5l_profit rule data st)"
proof -
  obtain w cs where st: "st = (w, cs)" by force
  obtain r w' cs' where "probe_model_5l_profit rule data st = (r, w', cs')"
    by (metis prod_cases3)
  then show ?thesis
    using probe_fst_stateless [OF assms, of data w' cs' w cs] st by simp
qed

theorem probe_deterministic_witness:
  "stateless example_rule
   \<and> fst (probe_model_5l_profit example_rule record_revenue
            (snd (probe_model_5l_profit example_rule record_revenue (0, []))))
       = fst (probe_model_5l_profit example_rule record_revenue (0, []))"
proof -
  have s: "stateless example_rule"
    by (simp add: stateless_def example_rule_def)
  show ?thesis
    using s probe_deterministic [OF s, of record_revenue "(0, [])"] by simp
qed

end
